theory Spec2Isabelle
  imports Complex_Main "HOL-Library.Char_ord" "HOL-Library.List_Lexorder" "HOL-Library.Word"
begin

unbundle bit_operations_syntax

section \<open>Structured prompts and the output-repair loop (ragas/prompt/base.py)\<close>

subsection \<open>Data\<close>

text \<open>
  Pydantic model objects.  \<open>StringIO\<close>, \<open>BoolIO\<close> and \<open>OutputStringAndPrompt\<close> are the
  classes declared in base.py; \<open>Model\<close> stands for an object of any other (user) model
  class.  \<open>OutputStringAndPrompt output_string prompt_value\<close> lists its two fields in the
  order of the class body.
\<close>

datatype 'a model =
    StringIO string
  | BoolIO bool
  | OutputStringAndPrompt string string
  | Model 'a

text \<open>
  Exceptions.  \<open>OutputParserException\<close> is what \<open>PydanticOutputParser.parse\<close> raises,
  \<open>RagasOutputParserException\<close> is built with the keyword \<open>num_retries\<close>, \<open>IndexError\<close>
  and \<open>AttributeError\<close> are Python's own, and \<open>Raised x\<close> is any other exception
  (for instance a transport failure inside the model client).
\<close>

datatype 'x exn =
    OutputParserException
  | RagasOutputParserException int
  | IndexError
  | AttributeError
  | Raised 'x

text \<open>
  Modelled from the spec: \<open>PromptValue\<close> (ragas.llms.prompt) is the exact prompt text sent
  to the model; \<open>to_string\<close> gives that text back.
\<close>

datatype prompt_value = PromptValue string

fun pv_to_string :: "prompt_value \<Rightarrow> string" where
  "pv_to_string (PromptValue prompt_str) = prompt_str"

text \<open>One call \<open>llm.generate(prompt_value, n, temperature, stop, callbacks)\<close>.\<close>

record 'cb llm_request =
  req_prompt :: prompt_value
  req_n :: int
  req_temperature :: "real option"
  req_stop :: "string list option"
  req_callbacks :: "'cb list"

text \<open>
  The model client is an opaque capability with its own state \<open>'s\<close>: given a request it
  either raises or returns the texts of \<open>resp.generations[0]\<close>.
\<close>

type_synonym ('x, 'cb, 's) llm =
  "'cb llm_request \<Rightarrow> 's \<Rightarrow> ('x exn + string list) \<times> 's"

text \<open>
  The state threaded through a run: the client's state and the list of requests issued
  so far (the second component only records what happened).
\<close>

record ('cb, 's) st =
  llm_state :: 's
  calls :: "'cb llm_request list"

definition llm_generate ::
  "('x, 'cb, 's) llm \<Rightarrow> 'cb llm_request \<Rightarrow> ('cb, 's) st \<Rightarrow> ('x exn + string list) \<times> ('cb, 's) st" where
  "llm_generate llm req s =
     (case llm req (llm_state s) of
        (r, w) \<Rightarrow> (r, \<lparr>llm_state = w, calls = calls s @ [req]\<rparr>))"

text \<open>
  What pydantic and langchain supply: \<open>model_dump_json(indent=4)\<close>, and for the class
  \<open>StringIO\<close> its rendered \<open>model_json_schema()\<close> and the result of
  \<open>PydanticOutputParser(pydantic_object=StringIO).parse\<close> (the \<open>text\<close> field, or \<open>None\<close>
  when the parser raises \<open>OutputParserException\<close>).
\<close>

record 'a pydantic =
  model_dump_json :: "'a model \<Rightarrow> string"
  stringio_schema :: string
  stringio_parse :: "string \<Rightarrow> string option"

text \<open>
  A \<open>PydanticPrompt\<close>: the class attributes \<open>instruction\<close> and \<open>examples\<close>, the
  output model through its rendered schema and its parser
  (\<open>PydanticOutputParser(pydantic_object=output_model).parse\<close>, \<open>None\<close> for
  \<open>OutputParserException\<close>), and the two overridable hooks.
\<close>

record 'a pydantic_prompt =
  instruction :: string
  examples :: "('a model \<times> 'a model) list"
  output_schema :: string
  output_parse :: "string \<Rightarrow> 'a model option"
  process_input :: "'a model \<Rightarrow> 'a model"
  process_output :: "'a model \<Rightarrow> 'a model \<Rightarrow> 'a model"

subsection \<open>Prompt text\<close>

definition nl :: string where
  "nl = [CHR 0x0A]"

fun join :: "string \<Rightarrow> string list \<Rightarrow> string" where
  "join sep [] = []"
| "join sep [x] = x"
| "join sep (x # y # ys) = x @ sep @ join sep (y # ys)"

definition generate_instruction :: "'a pydantic_prompt \<Rightarrow> string" where
  "generate_instruction p = instruction p"

definition generate_output_signature :: "'a pydantic_prompt \<Rightarrow> string" where
  "generate_output_signature p =
     ''Please return the output in a JSON format that complies with the '' @
     ''following schema as specified in JSON Schema and OpenAPI specification:'' @ nl @
     output_schema p"

definition generate_examples :: "'a pydantic \<Rightarrow> 'a pydantic_prompt \<Rightarrow> string" where
  "generate_examples py p =
     (if examples p \<noteq> [] then
        ''These are some examples to show how to perform the above instruction'' @ nl @
        join (nl @ nl)
          (map (\<lambda>(input_data, output_data).
                  instruction p @ nl @ ''input: '' @ model_dump_json py input_data @ nl @
                  ''output: '' @ model_dump_json py output_data)
               (examples p))
      else [])"

definition to_string :: "'a pydantic \<Rightarrow> 'a pydantic_prompt \<Rightarrow> 'a model \<Rightarrow> string" where
  "to_string py p data =
     generate_instruction p @ nl @ generate_output_signature p @ nl @ generate_examples py p @
     nl @ ''Now perform the above instruction with the following input'' @ nl @
     ''input: '' @ model_dump_json py data @ nl @ ''output: ''"

subsection \<open>The repair prompt\<close>

definition fix_output_format_prompt :: "'a pydantic \<Rightarrow> 'a pydantic_prompt" where
  "fix_output_format_prompt py =
     \<lparr>instruction = ''The output string did not satisfy the constraints given in the prompt. Fix the output string and return it.'',
      examples = [],
      output_schema = stringio_schema py,
      output_parse = (\<lambda>s. map_option StringIO (stringio_parse py s)),
      process_input = (\<lambda>i. i),
      process_output = (\<lambda>out i. out)\<rparr>"

text \<open>Attribute access \<open>result.text\<close>: only \<open>StringIO\<close> has the field.\<close>

fun text_of :: "'a model \<Rightarrow> 'x exn + string" where
  "text_of (StringIO t) = Inr t"
| "text_of _ = Inl AttributeError"

subsection \<open>generate and parse_output_string\<close>

text \<open>
  \<open>PydanticPrompt.generate\<close> and \<open>RagasOutputParser.parse_output_string\<close> call each other:
  a failed parse asks \<open>fix_output_format_prompt.generate\<close> for a repaired text, and that
  \<open>generate\<close> parses its own completion with \<open>parse_output_string\<close> again.  The recursion
  need not end, so both are one partial function over the call being made; the value
  \<open>None\<close> means that the call does not return.
\<close>

datatype ('a, 'cb) call =
    Generate "'a pydantic_prompt" "'a model" "real option" "string list option" "'cb list"
  | ParseOutputString "string \<Rightarrow> 'a model option" string prompt_value int

partial_function (option) run ::
  "('x, 'cb, 's) llm \<Rightarrow> 'a pydantic \<Rightarrow> ('a, 'cb) call \<Rightarrow> ('cb, 's) st
     \<Rightarrow> (('x exn + 'a model) \<times> ('cb, 's) st) option" where
  "run llm py c s =
    (case c of
       Generate p data temperature stop callbacks \<Rightarrow>
         (let processed_data = process_input p data;
              prompt_value = PromptValue (to_string py p processed_data)
          in case llm_generate llm
                    \<lparr>req_prompt = prompt_value, req_n = 1, req_temperature = temperature,
                     req_stop = stop, req_callbacks = callbacks\<rparr> s of
               (Inl e, s1) \<Rightarrow> Some (Inl e, s1)
             | (Inr generations, s1) \<Rightarrow>
                 (case generations of
                    [] \<Rightarrow> Some (Inl IndexError, s1)
                  | output_string # _ \<Rightarrow>
                      Option.bind
                        (run llm py (ParseOutputString (output_parse p) output_string prompt_value 3) s1)
                        (\<lambda>(r, s2). case r of
                             Inl e \<Rightarrow> Some (Inl e, s2)
                           | Inr answer \<Rightarrow> Some (Inr (process_output p answer data), s2))))
     | ParseOutputString parse output_string prompt_value max_retries \<Rightarrow>
         (case parse output_string of
            Some result \<Rightarrow> Some (Inr result, s)
          | None \<Rightarrow>
              if max_retries \<noteq> 0 then
                Option.bind
                  (run llm py
                     (Generate (fix_output_format_prompt py)
                        (OutputStringAndPrompt output_string (pv_to_string prompt_value))
                        None None []) s)
                  (\<lambda>(r, s1). case r of
                       Inl e \<Rightarrow> Some (Inl e, s1)
                     | Inr result \<Rightarrow>
                         (case text_of result of
                            Inl e \<Rightarrow> Some (Inl e, s1)
                          | Inr t \<Rightarrow>
                              run llm py (ParseOutputString parse t prompt_value (max_retries - 1)) s1))
              else Some (Inl (RagasOutputParserException max_retries), s)))"

definition generate ::
  "('x, 'cb, 's) llm \<Rightarrow> 'a pydantic \<Rightarrow> 'a pydantic_prompt \<Rightarrow> 'a model \<Rightarrow> real option
     \<Rightarrow> string list option \<Rightarrow> 'cb list \<Rightarrow> ('cb, 's) st
     \<Rightarrow> (('x exn + 'a model) \<times> ('cb, 's) st) option" where
  "generate llm py p data temperature stop callbacks s =
     run llm py (Generate p data temperature stop callbacks) s"

definition parse_output_string ::
  "('x, 'cb, 's) llm \<Rightarrow> 'a pydantic \<Rightarrow> (string \<Rightarrow> 'a model option) \<Rightarrow> string \<Rightarrow> prompt_value
     \<Rightarrow> int \<Rightarrow> ('cb, 's) st \<Rightarrow> (('x exn + 'a model) \<times> ('cb, 's) st) option" where
  "parse_output_string llm py parse output_string prompt_value max_retries s =
     run llm py (ParseOutputString parse output_string prompt_value max_retries) s"

subsection \<open>generate_multiple\<close>

text \<open>
  The loop \<open>for i in range(n)\<close> of \<open>generate_multiple\<close>, over the indices still to do and
  the list \<open>output_models\<close> built so far.  \<open>generations[0][i]\<close> raises \<open>IndexError\<close> past
  the end; any exception leaves the loop.
\<close>

fun parse_candidates ::
  "('x, 'cb, 's) llm \<Rightarrow> 'a pydantic \<Rightarrow> 'a pydantic_prompt \<Rightarrow> 'a model \<Rightarrow> prompt_value
     \<Rightarrow> string list \<Rightarrow> nat list \<Rightarrow> 'a model list \<Rightarrow> ('cb, 's) st
     \<Rightarrow> (('x exn + 'a model list) \<times> ('cb, 's) st) option" where
  "parse_candidates llm py p data prompt_value generations [] output_models s =
     Some (Inr output_models, s)"
| "parse_candidates llm py p data prompt_value generations (i # is) output_models s =
     (if i < length generations then
        Option.bind
          (parse_output_string llm py (output_parse p) (generations ! i) prompt_value 3 s)
          (\<lambda>(r, s1). case r of
               Inl e \<Rightarrow> Some (Inl e, s1)
             | Inr answer \<Rightarrow>
                 parse_candidates llm py p data prompt_value generations is
                   (output_models @ [process_output p answer data]) s1)
      else Some (Inl IndexError, s))"

definition generate_multiple ::
  "('x, 'cb, 's) llm \<Rightarrow> 'a pydantic \<Rightarrow> 'a pydantic_prompt \<Rightarrow> 'a model \<Rightarrow> int \<Rightarrow> real option
     \<Rightarrow> string list option \<Rightarrow> 'cb list \<Rightarrow> ('cb, 's) st
     \<Rightarrow> (('x exn + 'a model list) \<times> ('cb, 's) st) option" where
  "generate_multiple llm py p data n temperature stop callbacks s =
     (let processed_data = process_input p data;
          prompt_value = PromptValue (to_string py p processed_data)
      in case llm_generate llm
                \<lparr>req_prompt = prompt_value, req_n = n, req_temperature = temperature,
                 req_stop = stop, req_callbacks = callbacks\<rparr> s of
           (Inl e, s1) \<Rightarrow> Some (Inl e, s1)
         | (Inr generations, s1) \<Rightarrow>
             parse_candidates llm py p data prompt_value generations [0 ..< nat n] [] s1)"

subsection \<open>Predicates used to state the behaviour of the repair loop\<close>





section \<open>The function-result cache (ragas/cache.py)\<close>

subsection \<open>Python values and their canonical form\<close>

text \<open>
  The argument values covered: \<open>None\<close>, booleans, integers, strings, lists, tuples,
  dictionaries with string keys (an association list in insertion order; a well-formed
  one has distinct keys), sets of strings (the list is the set's iteration order),
  pydantic objects (\<open>PModel d\<close>, where \<open>d\<close> is the dictionary that \<open>model_dump()\<close> returns)
  and any other object, which only matters through its \<open>str()\<close> (\<open>PObj\<close>).
\<close>

datatype pyval =
    PNone
  | PBool bool
  | PInt int
  | PStr string
  | PObj string
  | PList "pyval list"
  | PTuple "pyval list"
  | PDict "(string \<times> pyval) list"
  | PStrSet "string list"
  | PModel "(string \<times> pyval) list"

text \<open>What \<open>_make_hashable\<close> returns: scalars and tuples only.\<close>

datatype hashable =
    HNone
  | HBool bool
  | HInt int
  | HStr string
  | HObj string
  | HTuple "hashable list"

text \<open>
  \<open>sorted\<close> on the pairs \<open>(k, _make_hashable(v))\<close> of a dictionary: the keys are distinct
  strings, so the pairs are ordered by key, strings comparing by code point.
\<close>

definition sorted_items :: "(string \<times> 'v) list \<Rightarrow> (string \<times> 'v) list" where
  "sorted_items kvs = sort_key fst kvs"

function make_hashable :: "pyval \<Rightarrow> hashable" where
  "make_hashable (PTuple xs) = HTuple (map make_hashable xs)"
| "make_hashable (PList xs) = HTuple (map make_hashable xs)"
| "make_hashable (PDict kvs) =
     HTuple (map (\<lambda>(k, v). HTuple [HStr k, v])
               (sorted_items (map (\<lambda>(k, v). (k, make_hashable v)) kvs)))"
| "make_hashable (PStrSet xs) = HTuple (map HStr (sort xs))"
| "make_hashable (PModel d) = make_hashable (PDict d)"
| "make_hashable PNone = HNone"
| "make_hashable (PBool b) = HBool b"
| "make_hashable (PInt i) = HInt i"
| "make_hashable (PStr s) = HStr s"
| "make_hashable (PObj s) = HObj s"
  by pat_completeness auto

termination
proof -
  have C: "(case x of PModel d \<Rightarrow> 1 | _ \<Rightarrow> 0) \<le> (1::nat)" for x :: pyval
    by (cases x) auto
  have A0: "x \<in> set xs \<Longrightarrow> Suc (size x) \<le> size_list size xs" for x :: pyval and xs
    by (induction xs) auto
  have B0: "(a, b) \<in> set kvs \<Longrightarrow> Suc (size b) \<le> size_list (size_prod (\<lambda>x. 0) size) kvs"
    for a :: string and b :: pyval and kvs
    by (induction kvs) auto
  have A: "x \<in> set xs \<Longrightarrow>
             2 * size x + (case x of PModel d \<Rightarrow> 1 | _ \<Rightarrow> 0) \<le> Suc (2 * size_list size xs)"
    for x :: pyval and xs
    using A0 [of x xs] C [of x] by linarith
  have B: "(a, b) \<in> set kvs \<Longrightarrow>
             2 * size b + (case b of PModel d \<Rightarrow> 1 | _ \<Rightarrow> 0)
               \<le> Suc (2 * size_list (size_prod (\<lambda>x. 0) size) kvs)"
    for a :: string and b :: pyval and kvs
    using B0 [of a b kvs] C [of b] by linarith
  show ?thesis
    by (relation "measure (\<lambda>v. 2 * size v + (case v of PModel d \<Rightarrow> 1 | _ \<Rightarrow> 0))")
       (auto simp: less_Suc_eq_le A B)
qed

subsection \<open>json.dumps on canonical values\<close>

text \<open>
  \<open>json.dumps(key_data, sort_keys=True, default=str)\<close> with the default separators and
  \<open>ensure_ascii\<close>: a string is quoted, with the two-character escapes for the quote,
  the backslash and the five named control characters, and a \<open>\u00XX\<close> escape for
  every other character outside the range from space to tilde (a \<open>char\<close> is a code
  point below 256).
\<close>

definition hex_digit :: "nat \<Rightarrow> char" where
  "hex_digit d = ''0123456789abcdef'' ! d"

definition json_escape :: "char \<Rightarrow> string" where
  "json_escape c =
     (if c = CHR 0x22 then [CHR 0x5C, CHR 0x22]
      else if c = CHR 0x5C then [CHR 0x5C, CHR 0x5C]
      else if c = CHR 0x0A then [CHR 0x5C, CHR ''n'']
      else if c = CHR 0x0D then [CHR 0x5C, CHR ''r'']
      else if c = CHR 0x09 then [CHR 0x5C, CHR ''t'']
      else if c = CHR 0x0C then [CHR 0x5C, CHR ''f'']
      else if c = CHR 0x08 then [CHR 0x5C, CHR ''b'']
      else if (of_char c :: nat) < 32 \<or> 126 < (of_char c :: nat) then
        [CHR 0x5C, CHR ''u'', CHR ''0'', CHR ''0'',
         hex_digit ((of_char c :: nat) div 16), hex_digit ((of_char c :: nat) mod 16)]
      else [c])"

definition json_str :: "string \<Rightarrow> string" where
  "json_str s = [CHR 0x22] @ concat (map json_escape s) @ [CHR 0x22]"

function dec_nat :: "nat \<Rightarrow> string" where
  "dec_nat k = (if k < 10 then [hex_digit k] else dec_nat (k div 10) @ [hex_digit (k mod 10)])"
  by pat_completeness auto
termination
  by (relation "measure (\<lambda>k. k)") auto

definition json_int :: "int \<Rightarrow> string" where
  "json_int i = (if i < 0 then CHR ''-'' # dec_nat (nat (- i)) else dec_nat (nat i))"

fun json_dumps :: "hashable \<Rightarrow> string" where
  "json_dumps HNone = ''null''"
| "json_dumps (HBool b) = (if b then ''true'' else ''false'')"
| "json_dumps (HInt i) = json_int i"
| "json_dumps (HStr s) = json_str s"
| "json_dumps (HObj s) = json_str s"
| "json_dumps (HTuple xs) = ''['' @ join '', '' (map json_dumps xs) @ '']''"

text \<open>
  A dictionary whose values are already rendered, with \<open>sort_keys=True\<close>.
\<close>

definition json_dumps_dict :: "(string \<times> string) list \<Rightarrow> string" where
  "json_dumps_dict kvs =
     ''{'' @ join '', '' (map (\<lambda>(k, v). json_str k @ '': '' @ v) (sorted_items kvs)) @ ''}''"

subsection \<open>SHA-256 (hashlib.sha256, FIPS 180-4)\<close>

type_synonym u8 = "8 word"
type_synonym u32 = "32 word"

definition rotr :: "nat \<Rightarrow> u32 \<Rightarrow> u32" where
  "rotr k x = drop_bit k x OR push_bit (32 - k) x"

definition ch :: "u32 \<Rightarrow> u32 \<Rightarrow> u32 \<Rightarrow> u32" where
  "ch x y z = (x AND y) XOR (NOT x AND z)"

definition maj :: "u32 \<Rightarrow> u32 \<Rightarrow> u32 \<Rightarrow> u32" where
  "maj x y z = (x AND y) XOR (x AND z) XOR (y AND z)"

definition bsig0 :: "u32 \<Rightarrow> u32" where
  "bsig0 x = rotr 2 x XOR rotr 13 x XOR rotr 22 x"

definition bsig1 :: "u32 \<Rightarrow> u32" where
  "bsig1 x = rotr 6 x XOR rotr 11 x XOR rotr 25 x"

definition ssig0 :: "u32 \<Rightarrow> u32" where
  "ssig0 x = rotr 7 x XOR rotr 18 x XOR drop_bit 3 x"

definition ssig1 :: "u32 \<Rightarrow> u32" where
  "ssig1 x = rotr 17 x XOR rotr 19 x XOR drop_bit 10 x"

text \<open>
  The round constants (the first 32 bits of the fractional parts of the cube roots of the
  first 64 primes) and the initial hash value (the same of the square roots of the first
  8 primes), written in decimal.
\<close>

definition sha256_k :: "u32 list" where
  "sha256_k =
   [1116352408, 1899447441, 3049323471, 3921009573, 961987163, 1508970993,
    2453635748, 2870763221, 3624381080, 310598401, 607225278, 1426881987,
    1925078388, 2162078206, 2614888103, 3248222580, 3835390401, 4022224774,
    264347078, 604807628, 770255983, 1249150122, 1555081692, 1996064986,
    2554220882, 2821834349, 2952996808, 3210313671, 3336571891, 3584528711,
    113926993, 338241895, 666307205, 773529912, 1294757372, 1396182291,
    1695183700, 1986661051, 2177026350, 2456956037, 2730485921, 2820302411,
    3259730800, 3345764771, 3516065817, 3600352804, 4094571909, 275423344,
    430227734, 506948616, 659060556, 883997877, 958139571, 1322822218,
    1537002063, 1747873779, 1955562222, 2024104815, 2227730452, 2361852424,
    2428436474, 2756734187, 3204031479, 3329325298]"

definition sha256_h0 :: "u32 list" where
  "sha256_h0 =
   [1779033703, 3144134277, 1013904242, 2773480762,
    1359893119, 2600822924, 528734635, 1541459225]"

text \<open>The message length in bits, as eight bytes, most significant first.\<close>

definition be64 :: "64 word \<Rightarrow> u8 list" where
  "be64 l =
     [ucast (drop_bit 56 l), ucast (drop_bit 48 l), ucast (drop_bit 40 l), ucast (drop_bit 32 l),
      ucast (drop_bit 24 l), ucast (drop_bit 16 l), ucast (drop_bit 8 l), ucast l]"

definition pad :: "u8 list \<Rightarrow> u8 list" where
  "pad m =
     m @ [0x80] @ replicate ((119 - length m mod 64) mod 64) 0 @ be64 (word_of_nat (8 * length m))"

fun be_words :: "u8 list \<Rightarrow> u32 list" where
  "be_words (a # b # c # d # r) =
     (push_bit 24 (ucast a) OR push_bit 16 (ucast b) OR push_bit 8 (ucast c) OR ucast d) # be_words r"
| "be_words _ = []"

text \<open>
  The message schedule, newest word first: with \<open>W[t-1], W[t-2], ...\<close> in the list, the
  next word is \<open>ssig1 W[t-2] + W[t-7] + ssig0 W[t-15] + W[t-16]\<close>.
\<close>

fun extend :: "nat \<Rightarrow> u32 list \<Rightarrow> u32 list" where
  "extend 0 ws = ws"
| "extend (Suc k) ws =
     extend k ((ssig1 (ws ! 1) + ws ! 6 + ssig0 (ws ! 14) + ws ! 15) # ws)"

fun sha_round :: "u32 list \<Rightarrow> u32 \<times> u32 \<Rightarrow> u32 list" where
  "sha_round [a, b, c, d, e, f, g, h] (k, w) =
     (let t1 = h + bsig1 e + ch e f g + k + w;
          t2 = bsig0 a + maj a b c
      in [t1 + t2, a, b, c, d + t1, e, f, g])"
| "sha_round v _ = v"

definition compress :: "u32 list \<Rightarrow> u32 list \<Rightarrow> u32 list" where
  "compress hs block =
     map2 (+) hs (foldl sha_round hs (zip sha256_k (rev (extend 48 (rev block)))))"

fun chunks :: "nat \<Rightarrow> 'a list \<Rightarrow> 'a list list" where
  "chunks k [] = []"
| "chunks k xs = (if k = 0 then [xs] else take k xs # chunks k (drop k xs))"

definition sha256 :: "u8 list \<Rightarrow> u32 list" where
  "sha256 m = foldl compress sha256_h0 (chunks 16 (be_words (pad m)))"

definition hex32 :: "u32 \<Rightarrow> string" where
  "hex32 w =
     [hex_digit (unat (drop_bit 28 w AND 15)), hex_digit (unat (drop_bit 24 w AND 15)),
      hex_digit (unat (drop_bit 20 w AND 15)), hex_digit (unat (drop_bit 16 w AND 15)),
      hex_digit (unat (drop_bit 12 w AND 15)), hex_digit (unat (drop_bit 8 w AND 15)),
      hex_digit (unat (drop_bit 4 w AND 15)), hex_digit (unat (w AND 15))]"

text \<open>
  \<open>hashlib.sha256(key_string.encode("utf-8")).hexdigest()\<close>.  The text that json.dumps
  returns is ASCII, so its UTF-8 encoding is one byte per character.
\<close>

definition sha256_hexdigest :: "string \<Rightarrow> string" where
  "sha256_hexdigest s = concat (map hex32 (sha256 (map of_char s)))"

subsection \<open>The cache key\<close>

text \<open>
  A callable: its \<open>__qualname__\<close>, what \<open>inspect.ismethod\<close> and
  \<open>inspect.iscoroutinefunction\<close> say of it, and its behaviour on positional and keyword
  arguments over a state \<open>'w\<close> of its own (\<open>Inl\<close> is a raised exception).
\<close>

record ('x, 'w) pyfunc =
  qualname :: string
  ismethod :: bool
  iscoroutinefunction :: bool
  body :: "pyval list \<Rightarrow> (string \<times> pyval) list \<Rightarrow> 'w \<Rightarrow> ('x + pyval) \<times> 'w"

definition EXCLUDE_KEYS :: "string list" where
  "EXCLUDE_KEYS = [''callbacks'', ''llm'']"

definition key_string :: "('x, 'w) pyfunc \<Rightarrow> pyval list \<Rightarrow> (string \<times> pyval) list \<Rightarrow> string" where
  "key_string func args kwargs =
     (let args = (if ismethod func then drop 1 args else args);
          filtered_kwargs = filter (\<lambda>(k, v). k \<notin> set EXCLUDE_KEYS) kwargs;
          key_data =
            [(''function'', json_dumps (HStr (qualname func))),
             (''args'', json_dumps (make_hashable (PTuple args))),
             (''kwargs'', json_dumps (make_hashable (PDict filtered_kwargs)))]
      in json_dumps_dict key_data)"

definition generate_cache_key :: "('x, 'w) pyfunc \<Rightarrow> pyval list \<Rightarrow> (string \<times> pyval) list \<Rightarrow> string" where
  "generate_cache_key func args kwargs = sha256_hexdigest (key_string func args kwargs)"

subsection \<open>Backends\<close>

text \<open>
  \<open>CacheInterface\<close>: three operations over the backend's own state \<open>'b\<close>; each may raise.
\<close>

record ('b, 'x) cache_interface =
  ci_get :: "string \<Rightarrow> 'b \<Rightarrow> ('x + pyval) \<times> 'b"
  ci_set :: "string \<Rightarrow> pyval \<Rightarrow> 'b \<Rightarrow> ('x + unit) \<times> 'b"
  ci_has_key :: "string \<Rightarrow> 'b \<Rightarrow> ('x + bool) \<times> 'b"

text \<open>
  Modelled from the spec: \<open>diskcache.Cache\<close>, the store behind \<open>DiskCacheBackend\<close>, is a
  keyed store with no expiry and no size bound; \<open>Cache.get\<close> of an absent key is \<open>None\<close>.
\<close>

type_synonym disk_cache = "string \<rightharpoonup> pyval"

definition DiskCacheBackend :: "(disk_cache, 'x) cache_interface" where
  "DiskCacheBackend =
     \<lparr>ci_get = (\<lambda>key cache. (Inr (case cache key of None \<Rightarrow> PNone | Some v \<Rightarrow> v), cache)),
      ci_set = (\<lambda>key v cache. (Inr (), cache(key \<mapsto> v))),
      ci_has_key = (\<lambda>key cache. (Inr (cache key \<noteq> None), cache))\<rparr>"

subsection \<open>The wrappers\<close>

text \<open>
  The state of a wrapped call: the process environment, the backend, the callable's own
  state, and a record of what was done (backend operations and invocations of the wrapped
  callable), which nothing reads.
\<close>

datatype event =
    HasKey string
  | Get string
  | Set string pyval
  | Invoke "pyval list" "(string \<times> pyval) list"

record ('b, 'w) cstate =
  environ :: "string \<rightharpoonup> string"
  backend :: 'b
  world :: 'w
  trace :: "event list"

definition is_caching_enabled :: "('b, 'w) cstate \<Rightarrow> bool" where
  "is_caching_enabled s =
     ((case environ s ''RAGAS_CACHE_ENABLED'' of None \<Rightarrow> ''0'' | Some v \<Rightarrow> v) = ''1'')"

definition call_func ::
  "('x, 'w) pyfunc \<Rightarrow> pyval list \<Rightarrow> (string \<times> pyval) list \<Rightarrow> ('b, 'w) cstate
     \<Rightarrow> ('x + pyval) \<times> ('b, 'w) cstate" where
  "call_func func args kwargs s =
     (case body func args kwargs (world s) of
        (r, w) \<Rightarrow> (r, s\<lparr>world := w, trace := trace s @ [Invoke args kwargs]\<rparr>))"

definition backend_has_key ::
  "('b, 'x) cache_interface \<Rightarrow> string \<Rightarrow> ('b, 'w) cstate \<Rightarrow> ('x + bool) \<times> ('b, 'w) cstate" where
  "backend_has_key cache_backend key s =
     (case ci_has_key cache_backend key (backend s) of
        (r, b) \<Rightarrow> (r, s\<lparr>backend := b, trace := trace s @ [HasKey key]\<rparr>))"

definition backend_get ::
  "('b, 'x) cache_interface \<Rightarrow> string \<Rightarrow> ('b, 'w) cstate \<Rightarrow> ('x + pyval) \<times> ('b, 'w) cstate" where
  "backend_get cache_backend key s =
     (case ci_get cache_backend key (backend s) of
        (r, b) \<Rightarrow> (r, s\<lparr>backend := b, trace := trace s @ [Get key]\<rparr>))"

definition backend_set ::
  "('b, 'x) cache_interface \<Rightarrow> string \<Rightarrow> pyval \<Rightarrow> ('b, 'w) cstate \<Rightarrow> ('x + unit) \<times> ('b, 'w) cstate" where
  "backend_set cache_backend key v s =
     (case ci_set cache_backend key v (backend s) of
        (r, b) \<Rightarrow> (r, s\<lparr>backend := b, trace := trace s @ [Set key v]\<rparr>))"

definition sync_wrapper ::
  "('b, 'x) cache_interface \<Rightarrow> ('x, 'w) pyfunc \<Rightarrow> pyval list \<Rightarrow> (string \<times> pyval) list
     \<Rightarrow> ('b, 'w) cstate \<Rightarrow> ('x + pyval) \<times> ('b, 'w) cstate" where
  "sync_wrapper cache_backend func args kwargs s =
     (if \<not> is_caching_enabled s then call_func func args kwargs s
      else
        let cache_key = generate_cache_key func args kwargs
        in case backend_has_key cache_backend cache_key s of
             (Inl e, s1) \<Rightarrow> (Inl e, s1)
           | (Inr True, s1) \<Rightarrow> backend_get cache_backend cache_key s1
           | (Inr False, s1) \<Rightarrow>
               (case call_func func args kwargs s1 of
                  (Inl e, s2) \<Rightarrow> (Inl e, s2)
                | (Inr result, s2) \<Rightarrow>
                    (case backend_set cache_backend cache_key result s2 of
                       (Inl e, s3) \<Rightarrow> (Inl e, s3)
                     | (Inr u, s3) \<Rightarrow> (Inr result, s3))))"

text \<open>
  \<open>async_wrapper\<close> has the same statements, with \<open>await\<close> on the two calls of the wrapped
  coroutine function.
\<close>

definition async_wrapper ::
  "('b, 'x) cache_interface \<Rightarrow> ('x, 'w) pyfunc \<Rightarrow> pyval list \<Rightarrow> (string \<times> pyval) list
     \<Rightarrow> ('b, 'w) cstate \<Rightarrow> ('x + pyval) \<times> ('b, 'w) cstate" where
  "async_wrapper cache_backend func args kwargs s =
     (if \<not> is_caching_enabled s then call_func func args kwargs s
      else
        let cache_key = generate_cache_key func args kwargs
        in case backend_has_key cache_backend cache_key s of
             (Inl e, s1) \<Rightarrow> (Inl e, s1)
           | (Inr True, s1) \<Rightarrow> backend_get cache_backend cache_key s1
           | (Inr False, s1) \<Rightarrow>
               (case call_func func args kwargs s1 of
                  (Inl e, s2) \<Rightarrow> (Inl e, s2)
                | (Inr result, s2) \<Rightarrow>
                    (case backend_set cache_backend cache_key result s2 of
                       (Inl e, s3) \<Rightarrow> (Inl e, s3)
                     | (Inr u, s3) \<Rightarrow> (Inr result, s3))))"

definition decorator ::
  "('b, 'x) cache_interface \<Rightarrow> ('x, 'w) pyfunc \<Rightarrow> pyval list \<Rightarrow> (string \<times> pyval) list
     \<Rightarrow> ('b, 'w) cstate \<Rightarrow> ('x + pyval) \<times> ('b, 'w) cstate" where
  "decorator cache_backend func =
     (let is_async = iscoroutinefunction func
      in if is_async then async_wrapper cache_backend func else sync_wrapper cache_backend func)"


subsection \<open>Predicates used to state the behaviour of the cache\<close>




section \<open>Concrete instances\<close>


definition llm_down :: "(unit, unit, unit) llm" where
  "llm_down = (\<lambda>req w. (Inl (Raised ()), w))"

definition llm_two :: "(unit, unit, unit) llm" where
  "llm_two = (\<lambda>req w. (Inr (if req_n req = 2 then [''bad'', ''good''] else [''x'']), w))"


definition py_ok :: "unit pydantic" where
  "py_ok = \<lparr>model_dump_json = (\<lambda>m. ''{}''), stringio_schema = ''{}'', stringio_parse = (\<lambda>t. Some t)\<rparr>"


definition accept_good :: "string \<Rightarrow> unit model option" where
  "accept_good = (\<lambda>t. if t = ''good'' then Some (Model ()) else None)"

definition prompt_of :: "(string \<Rightarrow> unit model option) \<Rightarrow> unit pydantic_prompt" where
  "prompt_of parse =
     \<lparr>instruction = ''q'', examples = [], output_schema = ''{}'', output_parse = parse,
      process_input = (\<lambda>i. i), process_output = (\<lambda>out i. out)\<rparr>"

definition s0 :: "(unit, unit) st" where
  "s0 = \<lparr>llm_state = (), calls = []\<rparr>"


text \<open>Callables, backends and states for the cache.\<close>

definition f_seven :: "(string, unit) pyfunc" where
  "f_seven = \<lparr>qualname = ''f'', ismethod = False, iscoroutinefunction = False,
               body = (\<lambda>args kwargs w. (Inr (PInt 7), w))\<rparr>"

definition f_boom :: "(string, unit) pyfunc" where
  "f_boom = \<lparr>qualname = ''f'', ismethod = False, iscoroutinefunction = False,
              body = (\<lambda>args kwargs w. (Inl ''boom'', w))\<rparr>"

definition f_io :: "(string, unit) pyfunc" where
  "f_io = \<lparr>qualname = ''f'', ismethod = False, iscoroutinefunction = False,
            body = (\<lambda>args kwargs w. (Inl ''io'', w))\<rparr>"

definition backend_down :: "(unit, string) cache_interface" where
  "backend_down =
     \<lparr>ci_get = (\<lambda>key b. (Inl ''io'', b)),
      ci_set = (\<lambda>key v b. (Inl ''io'', b)),
      ci_has_key = (\<lambda>key b. (Inl ''io'', b))\<rparr>"

definition backend_get_down :: "(unit, string) cache_interface" where
  "backend_get_down =
     \<lparr>ci_get = (\<lambda>key b. (Inl ''io'', b)),
      ci_set = (\<lambda>key v b. (Inr (), b)),
      ci_has_key = (\<lambda>key b. (Inr True, b))\<rparr>"

definition backend_set_down :: "(unit, string) cache_interface" where
  "backend_set_down =
     \<lparr>ci_get = (\<lambda>key b. (Inr PNone, b)),
      ci_set = (\<lambda>key v b. (Inl ''io'', b)),
      ci_has_key = (\<lambda>key b. (Inr False, b))\<rparr>"

definition env_on :: "string \<rightharpoonup> string" where
  "env_on = [''RAGAS_CACHE_ENABLED'' \<mapsto> ''1'']"

definition st_on :: "'b \<Rightarrow> ('b, unit) cstate" where
  "st_on b = \<lparr>environ = env_on, backend = b, world = (), trace = []\<rparr>"


section \<open>Properties of the repair loop\<close>

lemma generate_unfold:
  "generate llm py p data temperature stop callbacks s =
     (let processed_data = process_input p data;
          prompt_value = PromptValue (to_string py p processed_data)
      in case llm_generate llm
                \<lparr>req_prompt = prompt_value, req_n = 1, req_temperature = temperature,
                 req_stop = stop, req_callbacks = callbacks\<rparr> s of
           (Inl e, s1) \<Rightarrow> Some (Inl e, s1)
         | (Inr generations, s1) \<Rightarrow>
             (case generations of
                [] \<Rightarrow> Some (Inl IndexError, s1)
              | output_string # _ \<Rightarrow>
                  Option.bind
                    (parse_output_string llm py (output_parse p) output_string prompt_value 3 s1)
                    (\<lambda>(r, s2). case r of
                         Inl e \<Rightarrow> Some (Inl e, s2)
                       | Inr answer \<Rightarrow> Some (Inr (process_output p answer data), s2))))"
  unfolding generate_def parse_output_string_def
  by (subst run.simps) simp

lemma parse_output_string_unfold:
  "parse_output_string llm py parse output_string prompt_value max_retries s =
     (case parse output_string of
        Some result \<Rightarrow> Some (Inr result, s)
      | None \<Rightarrow>
          if max_retries \<noteq> 0 then
            Option.bind
              (generate llm py (fix_output_format_prompt py)
                 (OutputStringAndPrompt output_string (pv_to_string prompt_value)) None None [] s)
              (\<lambda>(r, s1). case r of
                   Inl e \<Rightarrow> Some (Inl e, s1)
                 | Inr result \<Rightarrow>
                     (case text_of result of
                        Inl e \<Rightarrow> Some (Inl e, s1)
                      | Inr t \<Rightarrow>
                          parse_output_string llm py parse t prompt_value (max_retries - 1) s1))
          else Some (Inl (RagasOutputParserException max_retries), s))"
  unfolding generate_def parse_output_string_def
  by (subst run.simps) simp











lemma bind_result_id:
  "(\<And>a. f a = a) \<Longrightarrow>
   Option.bind x (\<lambda>(r, s2). case r of Inl e \<Rightarrow> Some (Inl e, s2) | Inr a \<Rightarrow> Some (Inr (f a), s2)) = x"
  by (cases x) (auto split: sum.splits)

lemma fix_generate_unfold:
  "generate llm py (fix_output_format_prompt py) d None None [] s =
     (case llm_generate llm
             \<lparr>req_prompt = PromptValue (to_string py (fix_output_format_prompt py) d), req_n = 1,
              req_temperature = None, req_stop = None, req_callbacks = []\<rparr> s of
        (Inl e, s1) \<Rightarrow> Some (Inl e, s1)
      | (Inr generations, s1) \<Rightarrow>
          (case generations of
             [] \<Rightarrow> Some (Inl IndexError, s1)
           | output_string # _ \<Rightarrow>
               parse_output_string llm py (\<lambda>t. map_option StringIO (stringio_parse py t)) output_string
                 (PromptValue (to_string py (fix_output_format_prompt py) d)) 3 s1))"
proof -
  have P: "process_input (fix_output_format_prompt py) d = d"
    "\<And>a i. process_output (fix_output_format_prompt py) a i = a"
    "output_parse (fix_output_format_prompt py) = (\<lambda>t. map_option StringIO (stringio_parse py t))"
    by (simp_all add: fix_output_format_prompt_def)
  show ?thesis
    by (subst generate_unfold) (simp add: P Let_def bind_result_id split: prod.split sum.split list.split)
qed



text \<open>
  C7.  If the model call made by \<open>generate\<close> raises, \<open>generate\<close> raises the same exception
  and that request is the only one issued: nothing is parsed and no repair is started.
  The same holds, with any budget other than 0 left, for the model call of a repair
  started by \<open>parse_output_string\<close>: the exception comes out unchanged and no further
  request follows.
\<close>

theorem invocation_failure_propagates:
  "(llm \<lparr>req_prompt = PromptValue (to_string py p (process_input p data)), req_n = 1,
         req_temperature = temperature, req_stop = stop, req_callbacks = callbacks\<rparr> (llm_state s) = (Inl e, w)
      \<longrightarrow> generate llm py p data temperature stop callbacks s =
            Some (Inl e, \<lparr>llm_state = w,
                           calls = calls s @ [\<lparr>req_prompt = PromptValue (to_string py p (process_input p data)), req_n = 1,
                                               req_temperature = temperature, req_stop = stop, req_callbacks = callbacks\<rparr>]\<rparr>)) \<and>
   (parse output_string = None \<and> max_retries \<noteq> 0 \<and>
    llm \<lparr>req_prompt = PromptValue (to_string py (fix_output_format_prompt py)
                          (OutputStringAndPrompt output_string (pv_to_string prompt_value))), req_n = 1,
         req_temperature = None, req_stop = None, req_callbacks = []\<rparr> (llm_state s) = (Inl e, w)
      \<longrightarrow> parse_output_string llm py parse output_string prompt_value max_retries s =
            Some (Inl e, \<lparr>llm_state = w,
                           calls = calls s @ [\<lparr>req_prompt = PromptValue (to_string py (fix_output_format_prompt py)
                                                  (OutputStringAndPrompt output_string (pv_to_string prompt_value))), req_n = 1,
                                               req_temperature = None, req_stop = None, req_callbacks = []\<rparr>]\<rparr>))"
proof (intro conjI impI)
  assume "llm \<lparr>req_prompt = PromptValue (to_string py p (process_input p data)), req_n = 1,
         req_temperature = temperature, req_stop = stop, req_callbacks = callbacks\<rparr> (llm_state s) = (Inl e, w)"
  then show "generate llm py p data temperature stop callbacks s =
            Some (Inl e, \<lparr>llm_state = w,
                           calls = calls s @ [\<lparr>req_prompt = PromptValue (to_string py p (process_input p data)), req_n = 1,
                                               req_temperature = temperature, req_stop = stop, req_callbacks = callbacks\<rparr>]\<rparr>)"
    by (subst generate_unfold) (simp add: Let_def llm_generate_def)
next
  assume A: "parse output_string = None \<and> max_retries \<noteq> 0 \<and>
    llm \<lparr>req_prompt = PromptValue (to_string py (fix_output_format_prompt py)
                          (OutputStringAndPrompt output_string (pv_to_string prompt_value))), req_n = 1,
         req_temperature = None, req_stop = None, req_callbacks = []\<rparr> (llm_state s) = (Inl e, w)"
  then show "parse_output_string llm py parse output_string prompt_value max_retries s =
            Some (Inl e, \<lparr>llm_state = w,
                           calls = calls s @ [\<lparr>req_prompt = PromptValue (to_string py (fix_output_format_prompt py)
                                                  (OutputStringAndPrompt output_string (pv_to_string prompt_value))), req_n = 1,
                                               req_temperature = None, req_stop = None, req_callbacks = []\<rparr>]\<rparr>)"
    by (subst parse_output_string_unfold) (simp add: fix_generate_unfold llm_generate_def)
qed


theorem invocation_failure_propagates_witness:
  "generate llm_down py_ok (prompt_of accept_good) (Model ()) None None [] s0 =
     Some (Inl (Raised ()),
           \<lparr>llm_state = (),
              calls = [\<lparr>req_prompt = PromptValue (to_string py_ok (prompt_of accept_good) (Model ())), req_n = 1,
                        req_temperature = None, req_stop = None, req_callbacks = []\<rparr>]\<rparr>) \<and>
   parse_output_string llm_down py_ok accept_good ''bad'' (PromptValue ''q'') 3 s0 =
     Some (Inl (Raised ()),
           \<lparr>llm_state = (),
              calls = [\<lparr>req_prompt = PromptValue (to_string py_ok (fix_output_format_prompt py_ok)
                                         (OutputStringAndPrompt ''bad'' ''q'')), req_n = 1,
                        req_temperature = None, req_stop = None, req_callbacks = []\<rparr>]\<rparr>)"
  using invocation_failure_propagates
          [of llm_down py_ok "prompt_of accept_good" "Model ()" None None "[]" s0 "Raised ()" "()"
              accept_good "''bad''" 3 "PromptValue ''q''"]
  by (simp add: llm_down_def s0_def accept_good_def prompt_of_def)




lemma parse_candidates_append:
  "parse_candidates llm py p data pv gens (is1 @ is2) acc s =
     Option.bind (parse_candidates llm py p data pv gens is1 acc s)
       (\<lambda>(r, s1). case r of Inl e \<Rightarrow> Some (Inl e, s1)
                   | Inr acc' \<Rightarrow> parse_candidates llm py p data pv gens is2 acc' s1)"
proof (induction is1 arbitrary: acc s)
  case Nil
  show ?case by simp
next
  case (Cons i is1)
  show ?case
  proof (cases "i < length gens")
    case False
    then show ?thesis by simp
  next
    case True
    show ?thesis
    proof (cases "parse_output_string llm py (output_parse p) (gens ! i) pv 3 s")
      case None
      with True show ?thesis by simp
    next
      case (Some y)
      obtain r s1 where y: "y = (r, s1)" by (cases y)
      show ?thesis
        using True Some y Cons.IH by (cases r) simp_all
    qed
  qed
qed

text \<open>
  C8 (as amended).  \<open>generate_multiple\<close> parses the candidates in index order, each
  with \<open>parse_output_string\<close> and its own budget of 3.  When the candidates before \<open>j\<close>
  have been parsed and candidate \<open>j\<close> ends in an exception, \<open>generate_multiple\<close> raises
  that exception in the state reached there: no later candidate is parsed and no list
  is returned.
\<close>

theorem candidate_failure_aborts:
  assumes "llm \<lparr>req_prompt = PromptValue (to_string py p (process_input p data)), req_n = n,
                 req_temperature = temperature, req_stop = stop, req_callbacks = callbacks\<rparr> (llm_state s)
             = (Inr generations, w)"
    and "s1 = \<lparr>llm_state = w,
               calls = calls s @ [\<lparr>req_prompt = PromptValue (to_string py p (process_input p data)), req_n = n,
                                   req_temperature = temperature, req_stop = stop, req_callbacks = callbacks\<rparr>]\<rparr>"
    and "j < nat n" and "j < length generations"
    and "parse_candidates llm py p data (PromptValue (to_string py p (process_input p data)))
           generations [0 ..< j] [] s1 = Some (Inr output_models, s2)"
    and "parse_output_string llm py (output_parse p) (generations ! j)
           (PromptValue (to_string py p (process_input p data))) 3 s2 = Some (Inl e, s3)"
  shows "generate_multiple llm py p data n temperature stop callbacks s = Some (Inl e, s3)"
proof -
  let ?pv = "PromptValue (to_string py p (process_input p data))"
  have "[0 ..< j + (nat n - j)] = [0 ..< j] @ [j ..< j + (nat n - j)]"
    by (rule upt_add_eq_append) simp
  then have U: "[0 ..< nat n] = [0 ..< j] @ j # [Suc j ..< nat n]"
    using assms(3) by (simp add: upt_conv_Cons)
  have "parse_candidates llm py p data ?pv generations [0 ..< nat n] [] s1 = Some (Inl e, s3)"
    unfolding U parse_candidates_append using assms(4,5,6) by simp
  then show ?thesis
    using assms(1,2) by (simp add: generate_multiple_def Let_def llm_generate_def)
qed

lemma bad_candidate_exhausts:
  "\<exists>s3. parse_output_string llm_two py_ok accept_good ''bad'' pv 3 s =
           Some (Inl (RagasOutputParserException 0), s3) \<and>
        length (calls s3) = length (calls s) + 3"
  by (simp add: parse_output_string_unfold fix_generate_unfold llm_generate_def llm_two_def
        py_ok_def accept_good_def)

lemma llm_two_first:
  "llm_two \<lparr>req_prompt = pv, req_n = 2, req_temperature = None, req_stop = None, req_callbacks = []\<rparr> ()
     = (Inr [''bad'', ''good''], ())"
  by (simp add: llm_two_def)

text \<open>
  C8 as stated fails: of two candidates, the first cannot be repaired and the second
  parses at once, yet the call raises and the second candidate is lost.
\<close>

theorem second_candidate_lost:
  "map_option fst (generate_multiple llm_two py_ok (prompt_of accept_good) (Model ()) 2 None None [] s0) =
     Some (Inl (RagasOutputParserException 0)) \<and>
   output_parse (prompt_of accept_good) ''good'' = Some (Model ())"
proof -
  let ?pv = "PromptValue (to_string py_ok (prompt_of accept_good) (Model ()))"
  let ?s1 = "\<lparr>llm_state = (), calls = [\<lparr>req_prompt = ?pv, req_n = 2, req_temperature = None,
                 req_stop = None, req_callbacks = []\<rparr>]\<rparr> :: (unit, unit) st"
  from bad_candidate_exhausts[of ?pv ?s1] obtain s3 where
    B: "parse_output_string llm_two py_ok accept_good ''bad'' ?pv 3 ?s1 =
           Some (Inl (RagasOutputParserException 0), s3)" by blast
  have P: "output_parse (prompt_of accept_good) = accept_good"
    "process_input (prompt_of accept_good) (Model ()) = Model ()"
    by (simp_all add: prompt_of_def)
  have "generate_multiple llm_two py_ok (prompt_of accept_good) (Model ()) 2 None None [] s0 =
          Some (Inl (RagasOutputParserException 0), s3)"
    using B by (simp add: generate_multiple_def Let_def llm_generate_def llm_two_first s0_def P upt_conv_Cons)
  moreover have "output_parse (prompt_of accept_good) ''good'' = Some (Model ())"
    by (simp add: prompt_of_def accept_good_def)
  ultimately show ?thesis by simp
qed

theorem candidate_failure_aborts_witness:
  "\<exists>s3. generate_multiple llm_two py_ok (prompt_of accept_good) (Model ()) 2 None None [] s0 =
     Some (Inl (RagasOutputParserException 0), s3)"
proof -
  let ?pv = "PromptValue (to_string py_ok (prompt_of accept_good) (process_input (prompt_of accept_good) (Model ())))"
  let ?req = "\<lparr>req_prompt = ?pv, req_n = 2, req_temperature = None,
                 req_stop = None, req_callbacks = []\<rparr> :: unit llm_request"
  let ?s1 = "\<lparr>llm_state = (), calls = calls s0 @ [?req]\<rparr> :: (unit, unit) st"
  from bad_candidate_exhausts[of ?pv ?s1] obtain s3 where
    B: "parse_output_string llm_two py_ok accept_good ''bad'' ?pv 3 ?s1 =
           Some (Inl (RagasOutputParserException 0), s3)" by blast
  have h1: "llm_two ?req (llm_state s0) = (Inr [''bad'', ''good''], ())"
    by (simp add: llm_two_def)
  have h3: "(0::nat) < nat 2" by simp
  have h4: "(0::nat) < length [''bad'', ''good'']" by simp
  have h5: "parse_candidates llm_two py_ok (prompt_of accept_good) (Model ()) ?pv [''bad'', ''good''] [0 ..< 0] [] ?s1
              = Some (Inr [], ?s1)" by simp
  have h6: "parse_output_string llm_two py_ok (output_parse (prompt_of accept_good)) ([''bad'', ''good''] ! 0) ?pv 3 ?s1
              = Some (Inl (RagasOutputParserException 0), s3)"
    using B by (simp add: prompt_of_def)
  from candidate_failure_aborts[OF h1 refl h3 h4 h5 h6]
  show ?thesis by blast
qed


section \<open>Properties of the cache\<close>

lemma async_wrapper_eq: "async_wrapper = sync_wrapper"
  by (intro ext) (simp add: async_wrapper_def sync_wrapper_def)

lemma decorator_eq: "decorator cache_backend func = sync_wrapper cache_backend func"
  by (simp add: decorator_def async_wrapper_eq)

text \<open>
  C3.  While caching is enabled, if the backend reports the key of the call present, the
  wrapper returns what \<open>get\<close> returns for that key and does not invoke the wrapped
  callable: its state is untouched and the operations done are \<open>has_key\<close> and \<open>get\<close>
  only.  Hence, with the reference backend, after a call that returned \<open>v\<close> a call
  with the same key returns \<open>v\<close> again without invoking the callable.
\<close>

theorem cache_hit_skips_call:
  "is_caching_enabled s \<Longrightarrow>
     (ci_has_key cache_backend (generate_cache_key func args kwargs) (backend s) = (Inr True, b1) \<longrightarrow>
        decorator cache_backend func args kwargs s =
          backend_get cache_backend (generate_cache_key func args kwargs)
            (s\<lparr>backend := b1, trace := trace s @ [HasKey (generate_cache_key func args kwargs)]\<rparr>) \<and>
        world (snd (decorator cache_backend func args kwargs s)) = world s \<and>
        trace (snd (decorator cache_backend func args kwargs s)) =
          trace s @ [HasKey (generate_cache_key func args kwargs), Get (generate_cache_key func args kwargs)]) \<and>
     (decorator DiskCacheBackend func args kwargs s = (Inr v, s1) \<and>
      generate_cache_key func args' kwargs' = generate_cache_key func args kwargs \<longrightarrow>
        decorator DiskCacheBackend func args' kwargs' s1 =
          (Inr v, s1\<lparr>trace := trace s1 @ [HasKey (generate_cache_key func args kwargs),
                                             Get (generate_cache_key func args kwargs)]\<rparr>))"
proof (intro conjI impI)
  assume E: "is_caching_enabled s"
  let ?k = "generate_cache_key func args kwargs"
  {
    assume H: "ci_has_key cache_backend ?k (backend s) = (Inr True, b1)"
    show G: "decorator cache_backend func args kwargs s =
          backend_get cache_backend ?k (s\<lparr>backend := b1, trace := trace s @ [HasKey ?k]\<rparr>)"
      using E H by (simp add: decorator_eq sync_wrapper_def backend_has_key_def Let_def)
    show "world (snd (decorator cache_backend func args kwargs s)) = world s"
      unfolding G by (simp add: backend_get_def split: prod.split)
    show "trace (snd (decorator cache_backend func args kwargs s)) = trace s @ [HasKey ?k, Get ?k]"
      unfolding G by (simp add: backend_get_def split: prod.split)
  }
  {
    assume RK: "decorator DiskCacheBackend func args kwargs s = (Inr v, s1) \<and>
      generate_cache_key func args' kwargs' = generate_cache_key func args kwargs"
    then have R: "decorator DiskCacheBackend func args kwargs s = (Inr v, s1)"
      and K: "generate_cache_key func args' kwargs' = ?k" by blast+
    from R E have S1: "environ s1 = environ s \<and> backend s1 ?k = Some v"
      by (auto simp: decorator_eq sync_wrapper_def backend_has_key_def backend_get_def backend_set_def
            call_func_def DiskCacheBackend_def Let_def split: prod.splits sum.splits if_splits bool.splits option.splits)
    with E have E1: "is_caching_enabled s1"
      by (simp add: is_caching_enabled_def)
    show "decorator DiskCacheBackend func args' kwargs' s1 =
          (Inr v, s1\<lparr>trace := trace s1 @ [HasKey ?k, Get ?k]\<rparr>)"
      using E1 S1 K by (simp add: decorator_eq sync_wrapper_def backend_has_key_def backend_get_def
            DiskCacheBackend_def Let_def)
  }
qed








text \<open>
  C5.  While caching is enabled, a call that misses the cache and raises comes out with
  the same exception, and \<open>set\<close> is not called.  With the reference backend the store is
  unchanged, and the same call made again invokes the callable again.
\<close>

theorem failure_not_cached:
  "is_caching_enabled s \<Longrightarrow> body func args kwargs (world s) = (Inl e, w) \<Longrightarrow>
     (ci_has_key cache_backend (generate_cache_key func args kwargs) (backend s) = (Inr False, b1) \<longrightarrow>
        decorator cache_backend func args kwargs s =
          (Inl e, s\<lparr>backend := b1, world := w,
                     trace := trace s @ [HasKey (generate_cache_key func args kwargs), Invoke args kwargs]\<rparr>)) \<and>
     (backend s (generate_cache_key func args kwargs) = None \<longrightarrow>
        decorator DiskCacheBackend func args kwargs s =
          (Inl e, s\<lparr>world := w,
                     trace := trace s @ [HasKey (generate_cache_key func args kwargs), Invoke args kwargs]\<rparr>) \<and>
        (\<exists>rest. trace (snd (decorator DiskCacheBackend func args kwargs
                    (s\<lparr>world := w,
                       trace := trace s @ [HasKey (generate_cache_key func args kwargs), Invoke args kwargs]\<rparr>))) =
                 trace s @ [HasKey (generate_cache_key func args kwargs), Invoke args kwargs] @
                   HasKey (generate_cache_key func args kwargs) # Invoke args kwargs # rest))"
proof (intro conjI impI)
  assume E: "is_caching_enabled s" and B: "body func args kwargs (world s) = (Inl e, w)"
  let ?k = "generate_cache_key func args kwargs"
  let ?s' = "s\<lparr>world := w, trace := trace s @ [HasKey ?k, Invoke args kwargs]\<rparr>"
  show "decorator cache_backend func args kwargs s =
          (Inl e, s\<lparr>backend := b1, world := w, trace := trace s @ [HasKey ?k, Invoke args kwargs]\<rparr>)"
    if "ci_has_key cache_backend ?k (backend s) = (Inr False, b1)"
    using E B that by (simp add: decorator_eq sync_wrapper_def backend_has_key_def call_func_def Let_def)
  {
    assume M: "backend s ?k = None"
    show "decorator DiskCacheBackend func args kwargs s = (Inl e, ?s')"
      using E B M by (simp add: decorator_eq sync_wrapper_def backend_has_key_def call_func_def
            DiskCacheBackend_def Let_def)
    have E': "is_caching_enabled ?s'"
      using E by (simp add: is_caching_enabled_def)
    obtain r' w' where B': "body func args kwargs w = (r', w')"
      by (cases "body func args kwargs w")
    show "\<exists>rest. trace (snd (decorator DiskCacheBackend func args kwargs ?s')) =
                 trace s @ [HasKey ?k, Invoke args kwargs] @ HasKey ?k # Invoke args kwargs # rest"
      using E' M B' by (cases r')
        (simp_all add: decorator_eq sync_wrapper_def backend_has_key_def call_func_def backend_set_def
            DiskCacheBackend_def Let_def)
  }
qed

text \<open>
  C9 (as amended).  During an enabled call a failing backend operation aborts the call:
  the exception raised by \<open>has_key\<close>, \<open>get\<close> or \<open>set\<close> leaves the wrapper as it is.  A
  failure of \<open>has_key\<close> or \<open>get\<close> is never taken for a miss (the callable is not
  invoked), a failure of \<open>set\<close> comes after the callable has run, and whenever the wrapper
  does return a value, that value is the stored one after a successful \<open>has_key\<close> and
  \<open>get\<close>, or the callable's own result after a successful \<open>set\<close>.
\<close>

theorem backend_failure_surfaces:
  "is_caching_enabled s \<Longrightarrow>
     (ci_has_key cache_backend (generate_cache_key func args kwargs) (backend s) = (Inl x, b1) \<longrightarrow>
        decorator cache_backend func args kwargs s =
          (Inl x, s\<lparr>backend := b1, trace := trace s @ [HasKey (generate_cache_key func args kwargs)]\<rparr>)) \<and>
     (ci_has_key cache_backend (generate_cache_key func args kwargs) (backend s) = (Inr True, b1) \<and>
      ci_get cache_backend (generate_cache_key func args kwargs) b1 = (Inl x, b2) \<longrightarrow>
        decorator cache_backend func args kwargs s =
          (Inl x, s\<lparr>backend := b2,
                     trace := trace s @ [HasKey (generate_cache_key func args kwargs),
                                         Get (generate_cache_key func args kwargs)]\<rparr>)) \<and>
     (ci_has_key cache_backend (generate_cache_key func args kwargs) (backend s) = (Inr False, b1) \<and>
      body func args kwargs (world s) = (Inr v, w) \<and>
      ci_set cache_backend (generate_cache_key func args kwargs) v b1 = (Inl x, b2) \<longrightarrow>
        decorator cache_backend func args kwargs s =
          (Inl x, s\<lparr>backend := b2, world := w,
                     trace := trace s @ [HasKey (generate_cache_key func args kwargs), Invoke args kwargs,
                                         Set (generate_cache_key func args kwargs) v]\<rparr>)) \<and>
     (decorator cache_backend func args kwargs s = (Inr v, s') \<longrightarrow>
        (\<exists>b1 b2. ci_has_key cache_backend (generate_cache_key func args kwargs) (backend s) = (Inr True, b1) \<and>
                 ci_get cache_backend (generate_cache_key func args kwargs) b1 = (Inr v, b2)) \<or>
        (\<exists>b1 w b2. ci_has_key cache_backend (generate_cache_key func args kwargs) (backend s) = (Inr False, b1) \<and>
                 body func args kwargs (world s) = (Inr v, w) \<and>
                 ci_set cache_backend (generate_cache_key func args kwargs) v b1 = (Inr (), b2)))"
proof (intro conjI impI)
  assume E: "is_caching_enabled s"
  let ?k = "generate_cache_key func args kwargs"
  show "decorator cache_backend func args kwargs s =
          (Inl x, s\<lparr>backend := b1, trace := trace s @ [HasKey ?k]\<rparr>)"
    if "ci_has_key cache_backend ?k (backend s) = (Inl x, b1)"
    using E that by (simp add: decorator_eq sync_wrapper_def backend_has_key_def Let_def)
  show "decorator cache_backend func args kwargs s =
          (Inl x, s\<lparr>backend := b2, trace := trace s @ [HasKey ?k, Get ?k]\<rparr>)"
    if "ci_has_key cache_backend ?k (backend s) = (Inr True, b1) \<and> ci_get cache_backend ?k b1 = (Inl x, b2)"
    using E that by (simp add: decorator_eq sync_wrapper_def backend_has_key_def backend_get_def Let_def)
  show "decorator cache_backend func args kwargs s =
          (Inl x, s\<lparr>backend := b2, world := w, trace := trace s @ [HasKey ?k, Invoke args kwargs, Set ?k v]\<rparr>)"
    if "ci_has_key cache_backend ?k (backend s) = (Inr False, b1) \<and>
        body func args kwargs (world s) = (Inr v, w) \<and> ci_set cache_backend ?k v b1 = (Inl x, b2)"
    using E that by (simp add: decorator_eq sync_wrapper_def backend_has_key_def backend_set_def
          call_func_def Let_def)
  show "(\<exists>b1 b2. ci_has_key cache_backend ?k (backend s) = (Inr True, b1) \<and>
                 ci_get cache_backend ?k b1 = (Inr v, b2)) \<or>
        (\<exists>b1 w b2. ci_has_key cache_backend ?k (backend s) = (Inr False, b1) \<and>
                 body func args kwargs (world s) = (Inr v, w) \<and>
                 ci_set cache_backend ?k v b1 = (Inr (), b2))"
    if "decorator cache_backend func args kwargs s = (Inr v, s')"
    using E that
    by (auto simp: decorator_eq sync_wrapper_def backend_has_key_def backend_get_def backend_set_def
          call_func_def Let_def split: prod.splits sum.splits bool.splits)
qed


lemma enabled_st_on: "is_caching_enabled (st_on b)"
  by (simp add: is_caching_enabled_def st_on_def env_on_def)


theorem cache_hit_skips_call_witness:
  "decorator DiskCacheBackend f_seven [] [] (st_on (\<lambda>key. Some (PInt 7))) =
     (Inr (PInt 7),
      \<lparr>environ = env_on, backend = (\<lambda>key. Some (PInt 7)), world = (),
         trace = [HasKey (generate_cache_key f_seven [] []), Get (generate_cache_key f_seven [] [])]\<rparr>) \<and>
   decorator DiskCacheBackend f_seven [] []
     \<lparr>environ = env_on, backend = [generate_cache_key f_seven [] [] \<mapsto> PInt 7], world = (),
        trace = [HasKey (generate_cache_key f_seven [] []), Invoke [] [],
                 Set (generate_cache_key f_seven [] []) (PInt 7)]\<rparr> =
     (Inr (PInt 7),
      \<lparr>environ = env_on, backend = [generate_cache_key f_seven [] [] \<mapsto> PInt 7], world = (),
         trace = [HasKey (generate_cache_key f_seven [] []), Invoke [] [],
                  Set (generate_cache_key f_seven [] []) (PInt 7),
                  HasKey (generate_cache_key f_seven [] []), Get (generate_cache_key f_seven [] [])]\<rparr>)"
proof -
  let ?k = "generate_cache_key f_seven [] []"
  let ?full = "st_on (\<lambda>key :: string. Some (PInt 7)) :: (disk_cache, unit) cstate"
  let ?s1 = "\<lparr>environ = env_on, backend = [?k \<mapsto> PInt 7], world = (),
              trace = [HasKey ?k, Invoke [] [], Set ?k (PInt 7)]\<rparr> :: (disk_cache, unit) cstate"
  let ?D = "DiskCacheBackend :: (disk_cache, string) cache_interface"
  have h1: "ci_has_key ?D ?k (backend ?full) = (Inr True, backend ?full)"
    by (simp add: DiskCacheBackend_def st_on_def)
  have h2: "decorator ?D f_seven [] [] (st_on Map.empty) = (Inr (PInt 7), ?s1)"
    using enabled_st_on[of "Map.empty :: disk_cache"]
    by (simp add: decorator_eq sync_wrapper_def backend_has_key_def call_func_def backend_set_def
          DiskCacheBackend_def Let_def st_on_def f_seven_def)
  from cache_hit_skips_call[where s = ?full and cache_backend = ?D and func = f_seven and args = "[]"
         and kwargs = "[]" and ?b1.0 = "backend ?full", OF enabled_st_on] h1
  have "decorator ?D f_seven [] [] ?full =
          backend_get ?D ?k (?full\<lparr>backend := backend ?full, trace := trace ?full @ [HasKey ?k]\<rparr>)"
    by blast
  then have a: "decorator ?D f_seven [] [] ?full =
     (Inr (PInt 7),
      \<lparr>environ = env_on, backend = (\<lambda>key. Some (PInt 7)), world = (), trace = [HasKey ?k, Get ?k]\<rparr>)"
    by (simp add: backend_get_def DiskCacheBackend_def st_on_def)
  from cache_hit_skips_call[where s = "st_on Map.empty" and func = f_seven and args = "[]"
         and kwargs = "[]" and args' = "[]" and kwargs' = "[]" and v = "PInt 7" and ?s1.0 = ?s1,
         OF enabled_st_on] h2
  have "decorator ?D f_seven [] [] ?s1 = (Inr (PInt 7), ?s1\<lparr>trace := trace ?s1 @ [HasKey ?k, Get ?k]\<rparr>)"
    by blast
  then have b: "decorator ?D f_seven [] [] ?s1 =
     (Inr (PInt 7),
      \<lparr>environ = env_on, backend = [?k \<mapsto> PInt 7], world = (),
         trace = [HasKey ?k, Invoke [] [], Set ?k (PInt 7), HasKey ?k, Get ?k]\<rparr>)"
    by simp
  from a b show ?thesis by blast
qed



theorem failure_not_cached_witness:
  "decorator DiskCacheBackend f_boom [] [] (st_on Map.empty) =
     (Inl ''boom'',
      \<lparr>environ = env_on, backend = Map.empty, world = (),
         trace = [HasKey (generate_cache_key f_boom [] []), Invoke [] []]\<rparr>) \<and>
   (\<exists>rest. trace (snd (decorator DiskCacheBackend f_boom [] []
               \<lparr>environ = env_on, backend = Map.empty, world = (),
                  trace = [HasKey (generate_cache_key f_boom [] []), Invoke [] []]\<rparr>)) =
             [HasKey (generate_cache_key f_boom [] []), Invoke [] [],
              HasKey (generate_cache_key f_boom [] []), Invoke [] []] @ rest)"
proof -
  have h1: "body f_boom [] [] (world (st_on (Map.empty :: disk_cache))) = (Inl ''boom'', ())"
    by (simp add: f_boom_def)
  have h2: "backend (st_on (Map.empty :: disk_cache)) (generate_cache_key f_boom [] []) = None"
    by (simp add: st_on_def)
  from failure_not_cached[where s = "st_on (Map.empty :: disk_cache)" and func = f_boom and args = "[]"
         and kwargs = "[]" and e = "''boom''" and w = "()", OF enabled_st_on h1] h2
  show ?thesis by (simp add: st_on_def)
qed

text \<open>
  C9 as stated fails: when \<open>set\<close> fails, the call whose callable returned 7 does not
  pass through, and what the caller gets is what it gets from a healthy backend when the
  callable itself raises the same exception.
\<close>

theorem backend_failure_not_distinct:
  "fst (body f_seven [] [] ()) = Inr (PInt 7) \<and>
   fst (decorator backend_set_down f_seven [] [] (st_on ())) = Inl ''io'' \<and>
   fst (decorator DiskCacheBackend f_io [] [] (st_on Map.empty)) = Inl ''io''"
proof -
  have "fst (decorator backend_set_down f_seven [] [] (st_on ())) = Inl ''io''"
    using enabled_st_on[of "()"]
    by (simp add: decorator_eq sync_wrapper_def backend_has_key_def call_func_def backend_set_def
          backend_set_down_def f_seven_def st_on_def Let_def)
  moreover have "fst (decorator DiskCacheBackend f_io [] [] (st_on Map.empty)) = Inl ''io''"
    using enabled_st_on[of "Map.empty :: disk_cache"]
    by (simp add: decorator_eq sync_wrapper_def backend_has_key_def call_func_def
          DiskCacheBackend_def f_io_def st_on_def Let_def)
  ultimately show ?thesis by (simp add: f_seven_def)
qed

theorem backend_failure_surfaces_witness:
  "decorator backend_down f_seven [] [] (st_on ()) =
     (Inl ''io'', \<lparr>environ = env_on, backend = (), world = (),
                    trace = [HasKey (generate_cache_key f_seven [] [])]\<rparr>) \<and>
   decorator backend_get_down f_seven [] [] (st_on ()) =
     (Inl ''io'', \<lparr>environ = env_on, backend = (), world = (),
                    trace = [HasKey (generate_cache_key f_seven [] []), Get (generate_cache_key f_seven [] [])]\<rparr>) \<and>
   decorator backend_set_down f_seven [] [] (st_on ()) =
     (Inl ''io'', \<lparr>environ = env_on, backend = (), world = (),
                    trace = [HasKey (generate_cache_key f_seven [] []), Invoke [] [],
                             Set (generate_cache_key f_seven [] []) (PInt 7)]\<rparr>)"
proof -
  let ?k = "generate_cache_key f_seven [] []"
  have a: "ci_has_key backend_down ?k (backend (st_on ())) = (Inl ''io'', ())"
    by (simp add: backend_down_def)
  have b: "ci_has_key backend_get_down ?k (backend (st_on ())) = (Inr True, ()) \<and>
           ci_get backend_get_down ?k () = (Inl ''io'', ())"
    by (simp add: backend_get_down_def)
  have c: "ci_has_key backend_set_down ?k (backend (st_on ())) = (Inr False, ()) \<and>
           body f_seven [] [] (world (st_on ())) = (Inr (PInt 7), ()) \<and>
           ci_set backend_set_down ?k (PInt 7) () = (Inl ''io'', ())"
    by (simp add: backend_set_down_def f_seven_def)
  from backend_failure_surfaces[where s = "st_on ()" and cache_backend = backend_down and func = f_seven
         and args = "[]" and kwargs = "[]" and x = "''io''" and ?b1.0 = "()", OF enabled_st_on] a
  have 1: "decorator backend_down f_seven [] [] (st_on ()) =
             (Inl ''io'', (st_on ())\<lparr>backend := (), trace := trace (st_on ()) @ [HasKey ?k]\<rparr>)"
    by blast
  from backend_failure_surfaces[where s = "st_on ()" and cache_backend = backend_get_down and func = f_seven
         and args = "[]" and kwargs = "[]" and x = "''io''" and ?b1.0 = "()" and ?b2.0 = "()", OF enabled_st_on] b
  have 2: "decorator backend_get_down f_seven [] [] (st_on ()) =
             (Inl ''io'', (st_on ())\<lparr>backend := (), trace := trace (st_on ()) @ [HasKey ?k, Get ?k]\<rparr>)"
    by blast
  from backend_failure_surfaces[where s = "st_on ()" and cache_backend = backend_set_down and func = f_seven
         and args = "[]" and kwargs = "[]" and x = "''io''" and ?b1.0 = "()" and ?b2.0 = "()"
         and v = "PInt 7" and w = "()", OF enabled_st_on] c
  have 3: "decorator backend_set_down f_seven [] [] (st_on ()) =
             (Inl ''io'', (st_on ())\<lparr>backend := (), world := (),
                 trace := trace (st_on ()) @ [HasKey ?k, Invoke [] [], Set ?k (PInt 7)]\<rparr>)"
    by blast
  from 1 2 3 show ?thesis by (simp add: st_on_def)
qed


subsection \<open>The cache key\<close>

lemma sorted_items_unique:
  assumes "distinct (map fst xs)" "distinct (map fst ys)" "set xs = set ys"
  shows "sorted_items xs = sorted_items ys"
proof -
  have I: "inj_on fst (set (sort_key fst xs) \<union> set (sort_key fst ys))"
    using assms by (simp add: distinct_map)
  have "sort_key fst xs = sort_key fst ys"
  proof (rule map_sorted_distinct_set_unique[OF I])
    show "sorted (map fst (sort_key fst xs))" by simp
    show "sorted (map fst (sort_key fst ys))" by simp
    show "distinct (map fst (sort_key fst xs))"
      using assms(1) by (simp add: distinct_map)
    show "distinct (map fst (sort_key fst ys))"
      using assms(2) by (simp add: distinct_map)
    show "set (sort_key fst xs) = set (sort_key fst ys)"
      using assms(3) by simp
  qed
  then show ?thesis by (simp add: sorted_items_def)
qed

lemma filtered_same_set:
  assumes "distinct (map fst kwargs1)" "distinct (map fst kwargs2)"
    and "\<forall>k. k \<notin> set EXCLUDE_KEYS \<longrightarrow> map_of kwargs1 k = map_of kwargs2 k"
  shows "set (filter (\<lambda>(k, v). k \<notin> set EXCLUDE_KEYS) kwargs1) =
         set (filter (\<lambda>(k, v). k \<notin> set EXCLUDE_KEYS) kwargs2)"
proof -
  have "(k, v) \<in> set kwargs1 \<longleftrightarrow> (k, v) \<in> set kwargs2" if "k \<notin> set EXCLUDE_KEYS" for k v
  proof -
    have "(k, v) \<in> set kwargs1 \<longleftrightarrow> map_of kwargs1 k = Some v"
      using assms(1) by simp
    also have "\<dots> \<longleftrightarrow> map_of kwargs2 k = Some v"
      using assms(3) that by simp
    also have "\<dots> \<longleftrightarrow> (k, v) \<in> set kwargs2"
      using assms(2) by simp
    finally show ?thesis .
  qed
  then show ?thesis by auto
qed

lemma make_hashable_dict_reorder:
  assumes "distinct (map fst xs)" "distinct (map fst ys)" "set xs = set ys"
  shows "make_hashable (PDict xs) = make_hashable (PDict ys)"
proof -
  let ?f = "\<lambda>(k, v). (k, make_hashable v)"
  have F: "fst \<circ> ?f = fst"
    by (rule ext) auto
  have "sorted_items (map ?f xs) = sorted_items (map ?f ys)"
    by (rule sorted_items_unique) (simp_all add: F assms)
  then show ?thesis by simp
qed

lemma filter_keys_distinct:
  "distinct (map fst kw) \<Longrightarrow> distinct (map fst (filter P kw))"
  by (simp add: distinct_map_filter)

lemma key_reorder:
  assumes "distinct (map fst kwargs1)" "distinct (map fst kwargs2)"
    and "\<forall>k. k \<notin> set EXCLUDE_KEYS \<longrightarrow> map_of kwargs1 k = map_of kwargs2 k"
  shows "key_string func args kwargs1 = key_string func args kwargs2"
proof -
  have "make_hashable (PDict (filter (\<lambda>(k, v). k \<notin> set EXCLUDE_KEYS) kwargs1)) =
        make_hashable (PDict (filter (\<lambda>(k, v). k \<notin> set EXCLUDE_KEYS) kwargs2))"
  proof (rule make_hashable_dict_reorder)
    show "distinct (map fst (filter (\<lambda>(k, v). k \<notin> set EXCLUDE_KEYS) kwargs1))"
      by (rule filter_keys_distinct) (rule assms(1))
    show "distinct (map fst (filter (\<lambda>(k, v). k \<notin> set EXCLUDE_KEYS) kwargs2))"
      by (rule filter_keys_distinct) (rule assms(2))
    show "set (filter (\<lambda>(k, v). k \<notin> set EXCLUDE_KEYS) kwargs1) =
          set (filter (\<lambda>(k, v). k \<notin> set EXCLUDE_KEYS) kwargs2)"
      by (rule filtered_same_set[OF assms])
  qed
  then show ?thesis
    unfolding key_string_def Let_def by simp
qed


text \<open>
  The digest agrees with the one-block example of FIPS 180-4 (the message \<open>abc\<close>).
\<close>

lemma sha256_abc:
  "sha256_hexdigest ''abc'' = ''ba7816bf8f01cfea414140de5dae2223b00361a396177a9cb410ff61f20015ad''"
  by code_simp

text \<open>The two texts that are hashed in the example of the spec, and their digests.\<close>

lemma key_string_12:
  "key_string f_seven [] [(''a'', PInt 1), (''b'', PList [PInt 1, PInt 2])] =
     ''{\"args\": [], \"function\": \"f\", \"kwargs\": [[\"a\", 1], [\"b\", [1, 2]]]}''"
  by code_simp

lemma key_string_21:
  "key_string f_seven [] [(''a'', PInt 1), (''b'', PList [PInt 2, PInt 1])] =
     ''{\"args\": [], \"function\": \"f\", \"kwargs\": [[\"a\", 1], [\"b\", [2, 1]]]}''"
  by code_simp

lemma cache_key_12:
  "generate_cache_key f_seven [] [(''a'', PInt 1), (''b'', PList [PInt 1, PInt 2])] =
     ''ebcc07b0e03cb7f401b67fa047b2c88ec97bc9b4360872574af997235c7fc300''"
  by code_simp

lemma cache_key_21:
  "generate_cache_key f_seven [] [(''a'', PInt 1), (''b'', PList [PInt 2, PInt 1])] =
     ''7b456842800cf5482088769ce29825a4d6f70d5ffac4773c683ffdee0be20eca''"
  by code_simp

text \<open>
  C2.  Two calls of the same callable whose positional and filtered keyword arguments
  have the same canonical form get the same key.  In particular the key does not depend
  on the order in which the keyword arguments are given, nor on the values (or presence)
  of the excluded parameters \<open>callbacks\<close> and \<open>llm\<close>.  For the keyword arguments
  \<open>{"a": 1, "b": [1,2]}\<close> the key is the same with the keys reordered, and it is
  another key for \<open>{"a": 1, "b": [2,1]}\<close>.
\<close>

theorem cache_key_deterministic:
  "(make_hashable (PTuple (if ismethod func then drop 1 args1 else args1)) =
      make_hashable (PTuple (if ismethod func then drop 1 args2 else args2)) \<and>
    make_hashable (PDict (filter (\<lambda>(k, v). k \<notin> set EXCLUDE_KEYS) kwargs1)) =
      make_hashable (PDict (filter (\<lambda>(k, v). k \<notin> set EXCLUDE_KEYS) kwargs2))
      \<longrightarrow> generate_cache_key func args1 kwargs1 = generate_cache_key func args2 kwargs2) \<and>
   (distinct (map fst kwargs1) \<and> distinct (map fst kwargs2) \<and>
    (\<forall>k. k \<notin> set EXCLUDE_KEYS \<longrightarrow> map_of kwargs1 k = map_of kwargs2 k)
      \<longrightarrow> generate_cache_key func args kwargs1 = generate_cache_key func args kwargs2) \<and>
   generate_cache_key f_seven [] [(''a'', PInt 1), (''b'', PList [PInt 1, PInt 2])] =
     generate_cache_key f_seven [] [(''b'', PList [PInt 1, PInt 2]), (''a'', PInt 1)] \<and>
   generate_cache_key f_seven [] [(''a'', PInt 1), (''b'', PList [PInt 1, PInt 2])] \<noteq>
     generate_cache_key f_seven [] [(''a'', PInt 1), (''b'', PList [PInt 2, PInt 1])]"
proof (intro conjI impI)
  show "generate_cache_key func args1 kwargs1 = generate_cache_key func args2 kwargs2"
    if "make_hashable (PTuple (if ismethod func then drop 1 args1 else args1)) =
          make_hashable (PTuple (if ismethod func then drop 1 args2 else args2)) \<and>
        make_hashable (PDict (filter (\<lambda>(k, v). k \<notin> set EXCLUDE_KEYS) kwargs1)) =
          make_hashable (PDict (filter (\<lambda>(k, v). k \<notin> set EXCLUDE_KEYS) kwargs2))"
    using that unfolding generate_cache_key_def key_string_def Let_def by metis
  show "generate_cache_key func args kwargs1 = generate_cache_key func args kwargs2"
    if "distinct (map fst kwargs1) \<and> distinct (map fst kwargs2) \<and>
        (\<forall>k. k \<notin> set EXCLUDE_KEYS \<longrightarrow> map_of kwargs1 k = map_of kwargs2 k)"
    using that key_reorder[of kwargs1 kwargs2 func args] by (simp add: generate_cache_key_def)
  have "key_string f_seven [] [(''a'', PInt 1), (''b'', PList [PInt 1, PInt 2])] =
        key_string f_seven [] [(''b'', PList [PInt 1, PInt 2]), (''a'', PInt 1)]"
    by (rule key_reorder) (simp_all add: EXCLUDE_KEYS_def)
  then show "generate_cache_key f_seven [] [(''a'', PInt 1), (''b'', PList [PInt 1, PInt 2])] =
     generate_cache_key f_seven [] [(''b'', PList [PInt 1, PInt 2]), (''a'', PInt 1)]"
    by (simp add: generate_cache_key_def)
  show "generate_cache_key f_seven [] [(''a'', PInt 1), (''b'', PList [PInt 1, PInt 2])] \<noteq>
     generate_cache_key f_seven [] [(''a'', PInt 1), (''b'', PList [PInt 2, PInt 1])]"
    unfolding cache_key_12 cache_key_21 by simp
qed

theorem cache_key_deterministic_witness:
  "generate_cache_key f_seven [PInt 3, PList [PStr ''x'']] [(''a'', PInt 1), (''llm'', PObj ''client A'')] =
   generate_cache_key f_seven [PInt 3, PTuple [PStr ''x'']] [(''a'', PInt 1), (''llm'', PObj ''client A'')] \<and>
   generate_cache_key f_seven [PInt 3]
     [(''a'', PInt 1), (''llm'', PObj ''client A''), (''b'', PDict [(''y'', PNone), (''x'', PBool True)])] =
   generate_cache_key f_seven [PInt 3]
     [(''callbacks'', PList [PObj ''handler'']), (''b'', PDict [(''y'', PNone), (''x'', PBool True)]),
      (''llm'', PObj ''client B''), (''a'', PInt 1)]"
proof -
  have h1: "make_hashable (PTuple (if ismethod f_seven then drop 1 [PInt 3, PList [PStr ''x'']] else [PInt 3, PList [PStr ''x'']])) =
        make_hashable (PTuple (if ismethod f_seven then drop 1 [PInt 3, PTuple [PStr ''x'']] else [PInt 3, PTuple [PStr ''x'']])) \<and>
      make_hashable (PDict (filter (\<lambda>(k, v). k \<notin> set EXCLUDE_KEYS) [(''a'', PInt 1), (''llm'', PObj ''client A'')])) =
        make_hashable (PDict (filter (\<lambda>(k, v). k \<notin> set EXCLUDE_KEYS) [(''a'', PInt 1), (''llm'', PObj ''client A'')]))"
    by (simp add: f_seven_def)
  let ?k1 = "[(''a'', PInt 1), (''llm'', PObj ''client A''), (''b'', PDict [(''y'', PNone), (''x'', PBool True)])]"
  let ?k2 = "[(''callbacks'', PList [PObj ''handler'']), (''b'', PDict [(''y'', PNone), (''x'', PBool True)]),
      (''llm'', PObj ''client B''), (''a'', PInt 1)]"
  have h2: "distinct (map fst ?k1) \<and> distinct (map fst ?k2) \<and>
    (\<forall>k. k \<notin> set EXCLUDE_KEYS \<longrightarrow> map_of ?k1 k = map_of ?k2 k)"
    by (simp add: EXCLUDE_KEYS_def)
  from cache_key_deterministic[where func = f_seven and ?args1.0 = "[PInt 3, PList [PStr ''x'']]"
      and ?args2.0 = "[PInt 3, PTuple [PStr ''x'']]"
      and ?kwargs1.0 = "[(''a'', PInt 1), (''llm'', PObj ''client A'')]"
      and ?kwargs2.0 = "[(''a'', PInt 1), (''llm'', PObj ''client A'')]"] h1
  have a: "generate_cache_key f_seven [PInt 3, PList [PStr ''x'']] [(''a'', PInt 1), (''llm'', PObj ''client A'')] =
   generate_cache_key f_seven [PInt 3, PTuple [PStr ''x'']] [(''a'', PInt 1), (''llm'', PObj ''client A'')]"
    by blast
  from cache_key_deterministic[where func = f_seven and args = "[PInt 3]" and ?kwargs1.0 = ?k1 and ?kwargs2.0 = ?k2] h2
  have b: "generate_cache_key f_seven [PInt 3] ?k1 = generate_cache_key f_seven [PInt 3] ?k2"
    by blast
  from a b show ?thesis by blast
qed


end
